theory Spec2Isabelle
  imports Main
begin

section \<open>Benedict: local voice dictation\<close>

text \<open>
  A shallow embedding of the four core modules of the repository:
  \<^verbatim>\<open>src/text_processor.py\<close>, \<^verbatim>\<open>src/document_editor.py\<close>, \<^verbatim>\<open>src/transcriber.py\<close> and
  \<^verbatim>\<open>src/session_manager.py\<close>.

  A Python \<^verbatim>\<open>str\<close> is modelled as a \<^typ>\<open>string\<close>; one \<^typ>\<open>char\<close> stands for one
  code point in the range 0..255, so slices such as \<^verbatim>\<open>[:50]\<close> count code points.
  The language model behind \<^verbatim>\<open>chain.invoke\<close> and \<^verbatim>\<open>chain.stream\<close>, the clock and the
  outcome of \<^verbatim>\<open>os.rename\<close> are external: they are parameters of the model.
  Console output (\<^verbatim>\<open>print\<close>) is not modelled.
\<close>

subsection \<open>Python string primitives\<close>

text \<open>
  \<^verbatim>\<open>str.isspace\<close> and the regular-expression class \<^verbatim>\<open>\s\<close> agree on code points below
  256: TAB..CR, FS..US, SPACE, NEL and NBSP.
\<close>

definition is_space :: "char \<Rightarrow> bool" where
  "is_space c =
     (let n = (of_char c :: nat)
      in (9 \<le> n \<and> n \<le> 13) \<or> (28 \<le> n \<and> n \<le> 32) \<or> n = 133 \<or> n = 160)"

text \<open>
  The class \<^verbatim>\<open>\w\<close> of a \<^verbatim>\<open>str\<close> pattern: alphanumeric code points and the underscore.
  Below 256 these are the ASCII letters and digits, the underscore, and the Latin-1
  letters and numeric characters.
\<close>

definition is_word :: "char \<Rightarrow> bool" where
  "is_word c =
     (let n = (of_char c :: nat)
      in (48 \<le> n \<and> n \<le> 57) \<or> (65 \<le> n \<and> n \<le> 90) \<or> n = 95 \<or> (97 \<le> n \<and> n \<le> 122)
         \<or> n = 170 \<or> n = 178 \<or> n = 179 \<or> n = 181 \<or> n = 185 \<or> n = 186
         \<or> (188 \<le> n \<and> n \<le> 190) \<or> (192 \<le> n \<and> n \<le> 214)
         \<or> (216 \<le> n \<and> n \<le> 246) \<or> (248 \<le> n \<and> n \<le> 255))"

text \<open>\<^verbatim>\<open>s.strip()\<close>: leading and trailing whitespace removed.\<close>

definition strip :: "string \<Rightarrow> string" where
  "strip s = rev (dropWhile is_space (rev (dropWhile is_space s)))"

text \<open>\<^verbatim>\<open>sep.join(xs)\<close>.\<close>

fun join :: "string \<Rightarrow> string list \<Rightarrow> string" where
  "join sep [] = []"
| "join sep [x] = x"
| "join sep (x # y # ys) = x @ sep @ join sep (y # ys)"

subsection \<open>Errors and the completion service\<close>

text \<open>
  Exceptions are values; each carries the text that \<^verbatim>\<open>str(e)\<close> would give.
\<close>

datatype error =
    CompletionServiceError string
  | FileNotFoundError string
  | OSError string
  | RuntimeError string

fun error_text :: "error \<Rightarrow> string" where
  "error_text (CompletionServiceError m) = m"
| "error_text (FileNotFoundError m) = m"
| "error_text (OSError m) = m"
| "error_text (RuntimeError m) = m"

text \<open>
  The chain \<^verbatim>\<open>prompt | llm | parser\<close> applied to a rendered prompt. The service is
  deterministic: a rendered prompt determines the chunks it streams and whether it
  fails after them. \<^verbatim>\<open>chain.stream\<close> surfaces the chunks one by one;
  \<^verbatim>\<open>chain.invoke\<close> returns their concatenation, or raises.
\<close>

type_synonym service = "string \<Rightarrow> string list \<times> error option"

definition stream :: "service \<Rightarrow> string \<Rightarrow> string list \<times> error option" where
  "stream svc p = svc p"

definition invoke :: "service \<Rightarrow> string \<Rightarrow> error + string" where
  "invoke svc p = (case svc p of (cs, None) \<Rightarrow> Inr (concat cs) | (cs, Some e) \<Rightarrow> Inl e)"

text \<open>
  A template of \<^verbatim>\<open>ChatPromptTemplate.from_template\<close> with a single placeholder: the
  text before it and the text after it.
\<close>

type_synonym template = "string \<times> string"

definition render :: "template \<Rightarrow> string \<Rightarrow> string" where
  "render t x = fst t @ x @ snd t"

subsection \<open>text_processor.py\<close>

definition clean_template :: template where
  "clean_template =
     (''You are a dictation assistant. Clean up the following speech transcription:\<newline>- Remove filler words (um, uh, like, you know, so, basically, actually)\<newline>- Fix grammar and punctuation\<newline>- Keep the original meaning and tone\<newline>- Do NOT add any extra content or explanations\<newline>- Output ONLY the cleaned text, nothing else\<newline>\<newline>Transcription: '',
      ''\<newline>\<newline>Cleaned text:'')"

definition rewrite_template :: template where
  "rewrite_template =
     (''You are a writing assistant. Rewrite the following text to be clearer and more professional:\<newline>- Improve clarity and flow\<newline>- Fix any grammar issues\<newline>- Maintain the core message\<newline>- Output ONLY the rewritten text, nothing else\<newline>\<newline>Original: '',
      ''\<newline>\<newline>Rewritten:'')"

definition bullets_template :: template where
  "bullets_template =
     (''Convert the following text into bullet points:\<newline>- Extract key points\<newline>- Use clear, concise language\<newline>- Output ONLY the bullet points, nothing else\<newline>\<newline>Text: '',
      ''\<newline>\<newline>Bullet points:'')"

definition email_template :: template where
  "email_template =
     (''Format the following as a professional email:\<newline>- Add appropriate greeting and closing\<newline>- Keep it concise and professional\<newline>- Output ONLY the email, nothing else\<newline>\<newline>Content: '',
      ''\<newline>\<newline>Email:'')"

text \<open>
  The table \<^verbatim>\<open>PROMPTS\<close>: \<open>None\<close> for a key that is absent, \<open>Some None\<close> for the
  key \<^verbatim>\<open>"raw"\<close>, whose value is Python's \<^verbatim>\<open>None\<close>.
\<close>

definition PROMPTS :: "string \<Rightarrow> template option option" where
  "PROMPTS mode =
     (if mode = ''clean'' then Some (Some clean_template)
      else if mode = ''rewrite'' then Some (Some rewrite_template)
      else if mode = ''bullets'' then Some (Some bullets_template)
      else if mode = ''email'' then Some (Some email_template)
      else if mode = ''raw'' then Some None
      else None)"

text \<open>
  \<^verbatim>\<open>TextProcessor.process\<close>. The result is paired with the list of rendered prompts sent
  to the completion service, in order. An exception of the service propagates.
\<close>

definition process :: "service \<Rightarrow> string \<Rightarrow> string \<Rightarrow> (error + string) \<times> string list" where
  "process svc text mode =
     (if text = [] \<or> strip text = [] then (Inr [], [])
      else if mode = ''raw'' \<or> PROMPTS mode = None then (Inr (strip text), [])
      else case PROMPTS mode of
             None \<Rightarrow> (Inr (strip text), [])
           | Some None \<Rightarrow> (Inr (strip text), [])
           | Some (Some prompt_template) \<Rightarrow>
               (let p = render prompt_template text
                in (case invoke svc p of
                      Inl e \<Rightarrow> Inl e
                    | Inr result \<Rightarrow> Inr (strip result), [p])))"

text \<open>
  \<^verbatim>\<open>TextProcessor.process_stream\<close>, consumed to its end: the chunks yielded, the
  exception that ended the iteration if there was one, and the prompts sent.
\<close>

definition process_stream ::
  "service \<Rightarrow> string \<Rightarrow> string \<Rightarrow> (string list \<times> error option) \<times> string list" where
  "process_stream svc text mode =
     (if text = [] \<or> strip text = [] then (([], None), [])
      else if mode = ''raw'' \<or> PROMPTS mode = None then (([strip text], None), [])
      else case PROMPTS mode of
             None \<Rightarrow> (([strip text], None), [])
           | Some None \<Rightarrow> (([strip text], None), [])
           | Some (Some prompt_template) \<Rightarrow>
               (let p = render prompt_template text in (stream svc p, [p])))"

subsection \<open>document_editor.py\<close>

definition organize_edit_template :: template where
  "organize_edit_template =
     (''You are a document editor. Organize and structure the following raw notes into a coherent document.\<newline>\<newline>Instructions:\<newline>- Group related thoughts together\<newline>- Add clear section headers where appropriate\<newline>- Remove duplicate ideas\<newline>- Keep the original voice and meaning\<newline>- Do NOT add new content, only organize what exists\<newline>- Output ONLY the organized document, no explanations\<newline>\<newline>Raw Notes:\<newline>'',
      ''\<newline>\<newline>Organized Document:'')"

definition professional_edit_template :: template where
  "professional_edit_template =
     (''You are a professional editor. Transform these rough notes into a polished, professional document.\<newline>\<newline>Instructions:\<newline>- Improve clarity and flow\<newline>- Fix grammar and punctuation\<newline>- Use professional language\<newline>- Maintain the core message and ideas\<newline>- Structure with clear sections if needed\<newline>- Output ONLY the final document, no explanations\<newline>\<newline>Raw Notes:\<newline>'',
      ''\<newline>\<newline>Professional Document:'')"

definition summarize_edit_template :: template where
  "summarize_edit_template =
     (''You are a document summarizer. Create a concise summary of the following notes.\<newline>\<newline>Instructions:\<newline>- Extract the key points and main ideas\<newline>- Present as a clear, readable summary\<newline>- Use bullet points for main takeaways\<newline>- Keep it under 200 words\<newline>- Output ONLY the summary, no explanations\<newline>\<newline>Notes:\<newline>'',
      ''\<newline>\<newline>Summary:'')"

definition action_items_edit_template :: template where
  "action_items_edit_template =
     (''You are a task extractor. Extract all action items and to-dos from the following notes.\<newline>\<newline>Instructions:\<newline>- Find all tasks, action items, and things to do\<newline>- List each as a clear, actionable item\<newline>- Include any deadlines or assignees mentioned\<newline>- Use checkbox format: - [ ] Task\<newline>- Output ONLY the action items list, no explanations\<newline>\<newline>Notes:\<newline>'',
      ''\<newline>\<newline>Action Items:'')"

definition EDIT_PROMPTS :: "string \<Rightarrow> template option" where
  "EDIT_PROMPTS mode =
     (if mode = ''organize'' then Some organize_edit_template
      else if mode = ''professional'' then Some professional_edit_template
      else if mode = ''summarize'' then Some summarize_edit_template
      else if mode = ''action_items'' then Some action_items_edit_template
      else None)"

text \<open>
  The single graph node \<^verbatim>\<open>edit_document\<close>: it maps the state's \<^verbatim>\<open>content\<close> and
  \<^verbatim>\<open>edit_mode\<close> to the new \<^verbatim>\<open>result\<close>.
\<close>

definition edit_document :: "service \<Rightarrow> string \<Rightarrow> string \<Rightarrow> (error + string) \<times> string list" where
  "edit_document svc content mode =
     (case EDIT_PROMPTS mode of
        None \<Rightarrow> (Inr content, [])
      | Some t \<Rightarrow>
          (let p = render t content
           in (case invoke svc p of
                 Inl e \<Rightarrow> Inl e
               | Inr result \<Rightarrow> Inr (strip result), [p])))"

text \<open>
  \<^verbatim>\<open>DocumentEditor.edit\<close> runs the graph \<^verbatim>\<open>START -> editor -> END\<close> and returns the
  \<^verbatim>\<open>result\<close> field of the final state.
\<close>

definition edit :: "service \<Rightarrow> string \<Rightarrow> string \<Rightarrow> (error + string) \<times> string list" where
  "edit svc content mode = edit_document svc content mode"

subsection \<open>transcriber.py\<close>

text \<open>
  The speech engine (\<^verbatim>\<open>AudioToTextRecorder\<close>) is external: a handle is modelled by the
  value its next \<^verbatim>\<open>text()\<close> call returns (\<open>None\<close> for Python's \<^verbatim>\<open>None\<close>). The
  live-update callback is an opaque value of type \<^typ>\<open>'cb\<close>.
\<close>

record recorder_handle =
  engine_text :: "string option"

record 'cb transcriber =
  model :: string
  device :: string
  recorder :: "recorder_handle option"
  is_recording :: bool
  transcription :: string
  last_displayed :: string
  on_live_update :: "'cb option"

definition Transcriber_init :: "string \<Rightarrow> string \<Rightarrow> 'cb option \<Rightarrow> 'cb transcriber" where
  "Transcriber_init m d cb =
     \<lparr>model = m, device = d, recorder = None, is_recording = False,
      transcription = [], last_displayed = [], on_live_update = cb\<rparr>"

text \<open>
  \<^verbatim>\<open>start\<close> builds the engine; when the engine cannot be built the constructor's
  exception propagates and \<^verbatim>\<open>self.recorder\<close> is not assigned.
\<close>

definition start :: "(error + recorder_handle) \<Rightarrow> 'cb transcriber \<Rightarrow> error + 'cb transcriber" where
  "start engine t =
     (case engine of Inl e \<Rightarrow> Inl e | Inr r \<Rightarrow> Inr (t\<lparr>recorder := Some r\<rparr>))"

definition stop :: "'cb transcriber \<Rightarrow> 'cb transcriber" where
  "stop t = t"

definition on_transcription :: "string \<Rightarrow> 'cb transcriber \<Rightarrow> 'cb transcriber" where
  "on_transcription text t = t\<lparr>transcription := text\<rparr>"

text \<open>
  \<^verbatim>\<open>Transcriber.record\<close> (the name \<open>record\<close> is reserved): the error raised, or the
  text returned together with the updated object.
\<close>

definition record_audio :: "'cb transcriber \<Rightarrow> error + (string \<times> 'cb transcriber)" where
  "record_audio t =
     (case recorder t of
        None \<Rightarrow> Inl (RuntimeError ''Transcriber not started. Call start() first.'')
      | Some r \<Rightarrow>
          (let t' = t\<lparr>transcription := [], last_displayed := []\<rparr>
           in case engine_text r of
                None \<Rightarrow> Inr ([], t')
              | Some text \<Rightarrow> Inr (if text = [] then [] else strip text, t')))"

text \<open>
  The calls a client can make on a transcriber other than \<^verbatim>\<open>start\<close>. A \<^verbatim>\<open>record\<close>
  that raises leaves the object as it was.
\<close>

datatype call = Stop | OnTranscription string | Record

fun apply_call :: "'cb transcriber \<Rightarrow> call \<Rightarrow> 'cb transcriber" where
  "apply_call t Stop = stop t"
| "apply_call t (OnTranscription text) = on_transcription text t"
| "apply_call t Record = (case record_audio t of Inl e \<Rightarrow> t | Inr (text, t') \<Rightarrow> t')"

subsection \<open>session_manager.py: clock, files and the environment\<close>

text \<open>
  A reading of \<^verbatim>\<open>datetime.now()\<close>. The formats below are those of \<^verbatim>\<open>strftime\<close> for
  a year of four digits.
\<close>

record datetime =
  year :: nat
  month :: nat
  day :: nat
  hour :: nat
  minute :: nat
  second :: nat

definition digit :: "nat \<Rightarrow> char" where
  "digit n = ''0123456789'' ! (n mod 10)"

definition pad2 :: "nat \<Rightarrow> string" where
  "pad2 n = [digit (n div 10), digit n]"

definition pad4 :: "nat \<Rightarrow> string" where
  "pad4 n = [digit (n div 1000), digit (n div 100), digit (n div 10), digit n]"

text \<open>\<^verbatim>\<open>strftime("%Y-%m-%d_%H-%M")\<close>, \<^verbatim>\<open>strftime("%Y-%m-%d %H:%M")\<close> and
  \<^verbatim>\<open>strftime("%H:%M:%S")\<close>.\<close>

definition strftime_file :: "datetime \<Rightarrow> string" where
  "strftime_file t =
     pad4 (year t) @ ''-'' @ pad2 (month t) @ ''-'' @ pad2 (day t) @ ''_''
       @ pad2 (hour t) @ ''-'' @ pad2 (minute t)"

definition strftime_minute :: "datetime \<Rightarrow> string" where
  "strftime_minute t =
     pad4 (year t) @ ''-'' @ pad2 (month t) @ ''-'' @ pad2 (day t) @ '' ''
       @ pad2 (hour t) @ '':'' @ pad2 (minute t)"

definition strftime_time :: "datetime \<Rightarrow> string" where
  "strftime_time t = pad2 (hour t) @ '':'' @ pad2 (minute t) @ '':'' @ pad2 (second t)"

text \<open>\<^verbatim>\<open>os.path.join\<close> of a directory and one component (POSIX).\<close>

definition path_join :: "string \<Rightarrow> string \<Rightarrow> string" where
  "path_join d name =
     (if take 1 name = ''/'' then name
      else if d = [] \<or> last d = CHR ''/'' then d @ name
      else d @ ''/'' @ name)"

text \<open>
  What lies outside the program: the completion service, whether an \<^verbatim>\<open>os.rename\<close>
  of one path to another raises, and the module constant \<^verbatim>\<open>OUTPUT_DIR\<close> read from
  the process environment.
\<close>

record env =
  llm :: service
  rename_fails :: "string \<Rightarrow> string \<Rightarrow> bool"
  OUTPUT_DIR :: string

text \<open>
  The world the session acts on: the files by path, and the rendered prompts sent to
  the completion service so far.
\<close>

record world =
  files :: "string \<rightharpoonup> string"
  llm_calls :: "string list"

text \<open>
  The files are opened in text mode with the default \<^verbatim>\<open>newline=None\<close>. Reading then
  translates every \<^verbatim>\<open>"\r\n"\<close> and every lone \<^verbatim>\<open>"\r"\<close> to \<^verbatim>\<open>"\n"\<close> (universal
  newlines). Writing translates \<^verbatim>\<open>"\n"\<close> to the line separator of the platform, which
  is \<^verbatim>\<open>"\n"\<close> itself on POSIX, the platform modelled here: what is written is stored
  as it is.
\<close>

fun universal_newlines :: "string \<Rightarrow> string" where
  "universal_newlines [] = []"
| "universal_newlines [c] = [if c = CHR 0x0D then CHR 0x0A else c]"
| "universal_newlines (c # d # ds) =
     (if c = CHR 0x0D
      then (if d = CHR 0x0A then CHR 0x0A # universal_newlines ds
            else CHR 0x0A # universal_newlines (d # ds))
      else c # universal_newlines (d # ds))"

text \<open>
  \<^verbatim>\<open>open(p, "w")\<close> and \<^verbatim>\<open>open(p, "a")\<close> followed by a write create the file when it is
  missing; \<^verbatim>\<open>open(p, "r")\<close> raises on a missing file, and \<^verbatim>\<open>f.read()\<close> returns the
  stored text with its newlines translated. Writing itself is taken to succeed (the
  output directory is created by the constructor).
\<close>

definition write_file :: "string \<Rightarrow> string \<Rightarrow> world \<Rightarrow> world" where
  "write_file p c w = w\<lparr>files := (files w)(p \<mapsto> c)\<rparr>"

definition append_file :: "string \<Rightarrow> string \<Rightarrow> world \<Rightarrow> world" where
  "append_file p c w =
     w\<lparr>files := (files w)(p \<mapsto> (case files w p of None \<Rightarrow> c | Some old \<Rightarrow> old @ c))\<rparr>"

definition read_file :: "string \<Rightarrow> world \<Rightarrow> error + string" where
  "read_file p w =
     (case files w p of
        None \<Rightarrow> Inl (FileNotFoundError p)
      | Some c \<Rightarrow> Inr (universal_newlines c))"

definition rename_file :: "env \<Rightarrow> string \<Rightarrow> string \<Rightarrow> world \<Rightarrow> error + world" where
  "rename_file e src dst w =
     (if rename_fails e src dst then Inl (OSError src)
      else case files w src of
             None \<Rightarrow> Inl (FileNotFoundError src)
           | Some c \<Rightarrow> Inr (w\<lparr>files := ((files w)(src := None))(dst \<mapsto> c)\<rparr>))"

definition call_llm :: "env \<Rightarrow> string \<Rightarrow> world \<Rightarrow> (error + string) \<times> world" where
  "call_llm e p w = (invoke (llm e) p, w\<lparr>llm_calls := llm_calls w @ [p]\<rparr>)"

text \<open>The content of a file, empty when the file is missing.\<close>

definition content_of :: "world \<Rightarrow> string \<Rightarrow> string" where
  "content_of w p = (case files w p of None \<Rightarrow> [] | Some c \<Rightarrow> c)"

subsection \<open>session_manager.py: regular expressions\<close>

text \<open>\<^verbatim>\<open>re.sub(r'[^\w\s-]', '', s)\<close>.\<close>

definition sanitize :: "string \<Rightarrow> string" where
  "sanitize s = filter (\<lambda>c. is_word c \<or> is_space c \<or> c = CHR ''-'') s"

text \<open>\<^verbatim>\<open>s.replace(' ', '_')\<close>.\<close>

definition replace_spaces :: "string \<Rightarrow> string" where
  "replace_spaces s = map (\<lambda>c. if c = CHR '' '' then CHR ''_'' else c) s"

text \<open>
  \<^verbatim>\<open>re.sub(r'^# .+$', repl, content, count=1, flags=re.MULTILINE)\<close>. With
  \<^verbatim>\<open>MULTILINE\<close> the anchors match at the line feeds, and \<^verbatim>\<open>.\<close> matches anything but
  a line feed: the first line that starts with \<^verbatim>\<open>"# "\<close> and has at least one more
  character is replaced as a whole. (The replacement is used literally: the caller
  has removed every backslash from it.)
\<close>

fun split_lines :: "string \<Rightarrow> string list" where
  "split_lines [] = [[]]"
| "split_lines (c # cs) =
     (if c = CHR 0x0A then [] # split_lines cs
      else (case split_lines cs of [] \<Rightarrow> [[c]] | l # ls \<Rightarrow> (c # l) # ls))"

definition matches_heading :: "string \<Rightarrow> bool" where
  "matches_heading l = (take 2 l = ''# '' \<and> 2 < length l)"

fun sub_first :: "string \<Rightarrow> string list \<Rightarrow> string list" where
  "sub_first repl [] = []"
| "sub_first repl (l # ls) = (if matches_heading l then repl # ls else l # sub_first repl ls)"

definition re_sub_title :: "string \<Rightarrow> string \<Rightarrow> string" where
  "re_sub_title repl content = join ''\<newline>'' (sub_first repl (split_lines content))"

subsection \<open>session_manager.py: SessionManager\<close>

record entry =
  time :: string
  raw :: string
  cleaned :: string

record session =
  output_dir :: string
  session_start :: datetime
  transcriptions :: "entry list"
  title :: string
  filepath :: string

definition title_template :: template where
  \<open>title_template =
     (''Generate a short, descriptive title (3-6 words) for a document that starts with:\<newline>"'',
      ''"\<newline>\<newline>Output ONLY the title, nothing else. No quotes, no punctuation at the end.\<newline>\<newline>Title:'')\<close>

definition organize_template :: template where
  "organize_template =
     (''Organize and structure the following notes into a clear, readable document.\<newline>- Group related ideas together\<newline>- Add section headers if appropriate\<newline>- Remove redundancy\<newline>- Keep the original voice\<newline>\<newline>Notes:\<newline>'',
      ''\<newline>\<newline>Organized document:'')"

definition session_header :: "string \<Rightarrow> datetime \<Rightarrow> string" where
  "session_header ttl t0 =
     ''# '' @ ttl @ ''\<newline>\<newline>**Session Started:** '' @ strftime_minute t0
       @ ''\<newline>\<newline>---\<newline>\<newline>## Raw Transcription\<newline>\<newline>''"

definition create_session_file :: "world \<times> session \<Rightarrow> world \<times> session" where
  "create_session_file st =
     (case st of (w, s) \<Rightarrow>
        (let timestamp = strftime_file (session_start s);
             filename = timestamp @ ''_session.md'';
             s' = s\<lparr>filepath := path_join (output_dir s) filename\<rparr>
         in (write_file (filepath s') (session_header (title s') (session_start s')) w, s')))"

text \<open>
  \<^verbatim>\<open>SessionManager.__init__\<close>; \<open>now\<close> is the reading of the clock. The argument
  \<^verbatim>\<open>output_dir\<close> is optional, and \<^verbatim>\<open>output_dir or OUTPUT_DIR\<close> also replaces an
  empty string.
\<close>

definition dir_or_default :: "env \<Rightarrow> string option \<Rightarrow> string" where
  "dir_or_default e dir =
     (case dir of None \<Rightarrow> OUTPUT_DIR e | Some d \<Rightarrow> if d = [] then OUTPUT_DIR e else d)"

definition SessionManager_init :: "env \<Rightarrow> string option \<Rightarrow> datetime \<Rightarrow> world \<Rightarrow> world \<times> session" where
  "SessionManager_init e dir now w =
     create_session_file
       (w, \<lparr>output_dir = dir_or_default e dir,
            session_start = now, transcriptions = [],
            title = ''Untitled Session'', filepath = []\<rparr>)"

text \<open>
  \<^verbatim>\<open>_update_file_title\<close>; \<open>new_filepath_of\<close> is the path it computes for the rename.
  Reading may raise (the caller catches it); the text written back is the text as read,
  newlines translated, with the heading replaced; a failing rename is caught here and
  the path is kept.
\<close>

definition new_filepath_of :: "session \<Rightarrow> string" where
  "new_filepath_of s =
     (let timestamp = strftime_file (session_start s);
          safe_title = take 30 (replace_spaces (sanitize (title s)));
          new_filename = timestamp @ ''_'' @ safe_title @ ''.md''
      in path_join (output_dir s) new_filename)"

definition update_file_title :: "env \<Rightarrow> world \<times> session \<Rightarrow> error + world \<times> session" where
  "update_file_title e st =
     (case st of (w, s) \<Rightarrow>
        (case read_file (filepath s) w of
           Inl err \<Rightarrow> Inl err
         | Inr content \<Rightarrow>
             (let content' = re_sub_title (''# '' @ title s) content;
                  w1 = write_file (filepath s) content' w;
                  new_filepath = new_filepath_of s
              in (case rename_file e (filepath s) new_filepath w1 of
                    Inl err \<Rightarrow> Inr (w1, s)
                  | Inr w2 \<Rightarrow> Inr (w2, s\<lparr>filepath := new_filepath\<rparr>)))))"

text \<open>
  \<^verbatim>\<open>_generate_title\<close>. Every exception inside the \<^verbatim>\<open>try\<close> is caught: a failing
  completion leaves the title unassigned; a failing read in \<^verbatim>\<open>_update_file_title\<close>
  happens before that function changes anything.
\<close>

definition generate_title :: "env \<Rightarrow> string \<Rightarrow> world \<times> session \<Rightarrow> world \<times> session" where
  "generate_title e first_text st =
     (case st of (w, s) \<Rightarrow>
        (case call_llm e (render title_template (take 200 first_text)) w of
           (Inl err, w1) \<Rightarrow> (w1, s)
         | (Inr out, w1) \<Rightarrow>
             (let s1 = s\<lparr>title := strip out\<rparr>;
                  s2 = s1\<lparr>title := take 50 (sanitize (title s1))\<rparr>
              in (case update_file_title e (w1, s2) of
                    Inl err \<Rightarrow> (w1, s2)
                  | Inr st' \<Rightarrow> st'))))"

text \<open>\<^verbatim>\<open>cleaned_text or text\<close>: the raw text stands in for a missing or empty cleaned text.\<close>

definition cleaned_or :: "string option \<Rightarrow> string \<Rightarrow> string" where
  "cleaned_or cleaned_text text =
     (case cleaned_text of None \<Rightarrow> text | Some c \<Rightarrow> if c = [] then text else c)"

definition entry_block :: "string \<Rightarrow> string \<Rightarrow> string" where
  "entry_block timestamp entry = ''**['' @ timestamp @ '']** '' @ entry @ ''\<newline>\<newline>''"

text \<open>\<^verbatim>\<open>add_transcription\<close>; \<open>now\<close> is the reading of the clock.\<close>

definition add_transcription ::
  "env \<Rightarrow> datetime \<Rightarrow> string \<Rightarrow> string option \<Rightarrow> world \<times> session \<Rightarrow> world \<times> session" where
  "add_transcription e now text cleaned_text st =
     (case st of (w, s) \<Rightarrow>
        (let timestamp = strftime_time now;
             entry = cleaned_or cleaned_text text;
             s1 = s\<lparr>transcriptions := transcriptions s
                        @ [\<lparr>time = timestamp, raw = text, cleaned = cleaned_or cleaned_text text\<rparr>]\<rparr>;
             w1 = append_file (filepath s1) (entry_block timestamp entry) w
         in if length (transcriptions s1) = 1 then generate_title e entry (w1, s1)
            else (w1, s1)))"

definition summary_header :: string where
  "summary_header = ''\<newline>---\<newline>\<newline>## Organized Summary\<newline>\<newline>''"

definition summary_footer :: "datetime \<Rightarrow> string" where
  "summary_footer now =
     ''\<newline>\<newline>---\<newline>\<newline>*Session ended: '' @ strftime_minute now @ ''*\<newline>''"

text \<open>
  \<^verbatim>\<open>finalize\<close>: the value returned (\<open>None\<close> for the early \<^verbatim>\<open>return\<close>, else the path)
  and the new state. The three writes go through one handle opened for appending.
\<close>

text \<open>What the \<^verbatim>\<open>try\<close> block of \<^verbatim>\<open>finalize\<close> writes, given the outcome of the completion.\<close>

definition organized_text :: "error + string \<Rightarrow> string \<Rightarrow> string" where
  "organized_text r all_text =
     (case r of
        Inr organized \<Rightarrow> strip organized
      | Inl err \<Rightarrow> ''(Organization failed: '' @ error_text err @ '')\<newline>\<newline>'' @ all_text)"

definition finalize ::
  "env \<Rightarrow> bool \<Rightarrow> datetime \<Rightarrow> world \<times> session \<Rightarrow> string option \<times> world \<times> session" where
  "finalize e organize now st =
     (case st of (w, s) \<Rightarrow>
        (if transcriptions s = [] then (None, (w, s))
         else
           (let all_text = join ''\<newline>'' (map cleaned (transcriptions s));
                (body, w1) =
                  (if organize
                   then (case call_llm e (render organize_template all_text) w of
                           (r, w') \<Rightarrow> (organized_text r all_text, w'))
                   else (all_text, w));
                w2 = append_file (filepath s) (summary_header @ body @ summary_footer now) w1
            in (Some (filepath s), (w2, s)))))"

text \<open>A sequence of \<^verbatim>\<open>add_transcription\<close> calls, each with its clock reading.\<close>

fun add_all ::
  "env \<Rightarrow> world \<times> session \<Rightarrow> (datetime \<times> string \<times> string option) list \<Rightarrow> world \<times> session" where
  "add_all e st [] = st"
| "add_all e st ((now, text, cleaned_text) # rest) =
     add_all e (add_transcription e now text cleaned_text st) rest"

subsection \<open>Concrete inputs\<close>

text \<open>A completion service that answers every prompt with two chunks, the second a blank.\<close>

definition stub_padded :: service where
  "stub_padded p = ([''hi'', '' ''], None)"

text \<open>Services answering with a title, with a title of two lines, and with a failure.\<close>

definition stub_title :: service where
  "stub_title p = ([''Greeting '', ''Note''], None)"

definition stub_two_lines :: service where
  "stub_two_lines p = ([''Greeting\<newline>Note''], None)"

definition stub_down :: service where
  "stub_down p = ([], Some (CompletionServiceError ''connection refused''))"

definition rename_works :: "string \<Rightarrow> string \<Rightarrow> bool" where
  "rename_works src dst = False"

definition rename_denied :: "string \<Rightarrow> string \<Rightarrow> bool" where
  "rename_denied src dst = True"

definition demo_env :: env where
  "demo_env = \<lparr>llm = stub_title, rename_fails = rename_works, OUTPUT_DIR = ''sessions''\<rparr>"

definition two_lines_env :: env where
  "two_lines_env =
     \<lparr>llm = stub_two_lines, rename_fails = rename_works, OUTPUT_DIR = ''sessions''\<rparr>"

definition down_env :: env where
  "down_env = \<lparr>llm = stub_down, rename_fails = rename_works, OUTPUT_DIR = ''sessions''\<rparr>"

definition denied_env :: env where
  "denied_env = \<lparr>llm = stub_title, rename_fails = rename_denied, OUTPUT_DIR = ''sessions''\<rparr>"

definition empty_world :: world where
  "empty_world = \<lparr>files = Map.empty, llm_calls = []\<rparr>"

definition demo_start :: datetime where
  "demo_start = \<lparr>year = 2024, month = 1, day = 1, hour = 10, minute = 0, second = 0\<rparr>"

definition demo_later :: datetime where
  "demo_later = \<lparr>year = 2024, month = 1, day = 1, hour = 10, minute = 5, second = 30\<rparr>"

text \<open>
  The scenario of the specification: a new session, the session with its first entry,
  with a second entry, and after \<^verbatim>\<open>finalize(organize=True)\<close>.
\<close>

definition demo_first :: "world \<times> session" where
  "demo_first = SessionManager_init demo_env None demo_start empty_world"

definition demo_session :: "world \<times> session" where
  "demo_session =
     add_transcription demo_env demo_start ''um hi there'' (Some ''Hi there.'')
       (SessionManager_init demo_env None demo_start empty_world)"

definition demo_two :: "world \<times> session" where
  "demo_two = add_transcription demo_env demo_later ''uh bye'' (Some ''Bye.'') demo_session"

definition demo_finalized :: "world \<times> session" where
  "demo_finalized = snd (finalize demo_env True demo_later demo_session)"

text \<open>
  The same first entry where the title comes back in two lines, a first entry that
  holds a carriage return, and the first entry where the completion service is down
  and where the rename is refused.
\<close>

definition two_lines_session :: "world \<times> session" where
  "two_lines_session =
     add_transcription two_lines_env demo_start ''um hi there'' (Some ''Hi there.'')
       (SessionManager_init two_lines_env None demo_start empty_world)"


definition down_session :: "world \<times> session" where
  "down_session =
     add_transcription down_env demo_start ''um hi there'' (Some ''Hi there.'')
       (SessionManager_init down_env None demo_start empty_world)"

definition denied_session :: "world \<times> session" where
  "denied_session =
     add_transcription denied_env demo_start ''um hi there'' (Some ''Hi there.'')
       (SessionManager_init denied_env None demo_start empty_world)"

section \<open>Properties\<close>

subsection \<open>Trimming\<close>

lemma strip_Nil: "strip [] = []"
  by (simp add: strip_def)

lemma dropWhile_strip: "dropWhile is_space (strip s) = strip s"
proof -
  define a where "a = dropWhile is_space s"
  define b where "b = rev (dropWhile is_space (rev a))"
  have ab: "a = b @ rev (takeWhile is_space (rev a))"
  proof -
    have "rev (takeWhile is_space (rev a) @ dropWhile is_space (rev a)) = a"
      by (simp only: takeWhile_dropWhile_id rev_rev_ident)
    then show ?thesis by (simp only: rev_append b_def)
  qed
  have "dropWhile is_space b = b"
  proof (cases b)
    case Nil
    then show ?thesis by simp
  next
    case (Cons x b')
    with ab have "a = x # (b' @ rev (takeWhile is_space (rev a)))" by simp
    then have "hd a = x" and "a \<noteq> []" by (metis list.sel(1), metis list.distinct(1))
    moreover have "a \<noteq> [] \<Longrightarrow> \<not> is_space (hd a)" unfolding a_def by (rule hd_dropWhile)
    ultimately have "\<not> is_space x" by simp
    with Cons show ?thesis by simp
  qed
  then show ?thesis by (simp add: strip_def a_def b_def)
qed

lemma strip_strip: "strip (strip s) = strip s"
proof -
  have "strip (strip s) = rev (dropWhile is_space (rev (strip s)))"
    by (simp add: strip_def[of "strip s"] dropWhile_strip)
  also have "\<dots> = strip s" by (simp add: strip_def)
  finally show ?thesis .
qed

subsection \<open>The prompt pipeline\<close>

text \<open>
  Claim C2, as stated: for every text and mode, the concatenation of the chunks of
  \<^verbatim>\<open>process_stream\<close> equals the string returned by \<^verbatim>\<open>process\<close>. It fails: \<^verbatim>\<open>process\<close>
  trims the completion, \<^verbatim>\<open>process_stream\<close> passes the chunks on as they come. With a
  service that answers \<^verbatim>\<open>"hi"\<close>, \<^verbatim>\<open>" "\<close>, \<^verbatim>\<open>process\<close> returns \<^verbatim>\<open>"hi"\<close> and the chunks
  concatenate to \<^verbatim>\<open>"hi "\<close>.
\<close>

theorem C2_stream_concat_counterexample:
  "fst (process stub_padded ''x'' ''clean'') = Inr ''hi'' \<and>
   concat (fst (fst (process_stream stub_padded ''x'' ''clean''))) = ''hi '' \<and>
   fst (process stub_padded ''x'' ''clean'')
     \<noteq> Inr (concat (fst (fst (process_stream stub_padded ''x'' ''clean''))))"
  by (simp add: process_def process_stream_def PROMPTS_def invoke_def stream_def
      stub_padded_def strip_def is_space_def)

text \<open>
  Claim C2, amended: for every text and mode and a deterministic completion service,
  \<^verbatim>\<open>process\<close> returns the trimmed concatenation of the chunks yielded by
  \<^verbatim>\<open>process_stream\<close>; when the service fails, \<^verbatim>\<open>process\<close> raises the error that ends the
  stream. Both send the same prompts.
\<close>

theorem C2_process_is_trimmed_stream:
  "fst (process svc text mode) =
     (case fst (process_stream svc text mode) of
        (cs, None) \<Rightarrow> Inr (strip (concat cs))
      | (cs, Some e) \<Rightarrow> Inl e) \<and>
   snd (process svc text mode) = snd (process_stream svc text mode)"
  by (auto simp: process_def process_stream_def invoke_def stream_def strip_strip strip_Nil
      Let_def split: option.splits prod.splits sum.splits)

theorem C2_process_is_trimmed_stream_witness:
  "fst (process stub_padded ''x'' ''clean'') = Inr (strip ''hi '') \<and>
   fst (fst (process_stream stub_padded ''x'' ''clean'')) = [''hi'', '' '']"
  using C2_process_is_trimmed_stream [of stub_padded "''x''" "''clean''"]
  by (simp add: process_stream_def PROMPTS_def stream_def stub_padded_def strip_def is_space_def)

text \<open>
  Claim C3: if the mode is \<^verbatim>\<open>"raw"\<close> or absent from the template table, \<^verbatim>\<open>process\<close>
  returns the trimmed input and \<^verbatim>\<open>process_stream\<close> yields exactly the trimmed input
  (one chunk; no chunk when the trimmed input is empty), and neither sends a prompt to
  the completion service.
\<close>

theorem C3_raw_or_unknown_mode_bypass:
  "mode = ''raw'' \<or> PROMPTS mode = None \<Longrightarrow>
   process svc text mode = (Inr (strip text), []) \<and>
   process_stream svc text mode =
     ((if strip text = [] then [] else [strip text], None), []) \<and>
   concat (fst (fst (process_stream svc text mode))) = strip text"
  by (auto simp: process_def process_stream_def strip_Nil)

theorem C3_raw_or_unknown_mode_bypass_witness:
  "(''raw'' = ''raw'' \<or> PROMPTS ''raw'' = None) \<and>
   process stub_padded '' hi '' ''raw'' = (Inr ''hi'', []) \<and>
   process_stream stub_padded '' hi '' ''raw'' = (([''hi''], None), []) \<and>
   PROMPTS ''shout'' = None \<and>
   process stub_padded '' hi '' ''shout'' = (Inr ''hi'', [])"
  using C3_raw_or_unknown_mode_bypass [of "''raw''" stub_padded "'' hi ''"]
    C3_raw_or_unknown_mode_bypass [of "''shout''" stub_padded "'' hi ''"]
  by (simp add: PROMPTS_def strip_def is_space_def)

subsection \<open>The document editor\<close>

text \<open>
  Claim C9, as stated: for a mode absent from the editor's template table, \<^verbatim>\<open>edit\<close>
  returns the trimmed input. It fails: the content is returned as it is, untrimmed.
\<close>

theorem C9_edit_untrimmed_counterexample:
  "EDIT_PROMPTS ''raw'' = None \<and>
   fst (edit stub_padded '' x'' ''raw'') = Inr '' x'' \<and>
   strip '' x'' = ''x'' \<and>
   fst (edit stub_padded '' x'' ''raw'') \<noteq> Inr (strip '' x'')"
  by (simp add: edit_def edit_document_def EDIT_PROMPTS_def strip_def is_space_def)

text \<open>
  Claim C9, amended: for every content and every mode absent from the editor's template
  table, \<^verbatim>\<open>edit\<close> returns the content unchanged (not trimmed) and sends no prompt to
  the completion service.
\<close>

theorem C9_edit_unknown_mode_identity:
  "EDIT_PROMPTS mode = None \<Longrightarrow> edit svc content mode = (Inr content, [])"
  by (simp add: edit_def edit_document_def)

theorem C9_edit_unknown_mode_identity_witness:
  "EDIT_PROMPTS ''raw'' = None \<and> edit stub_padded '' x '' ''raw'' = (Inr '' x '', [])"
  using C9_edit_unknown_mode_identity [of "''raw''" stub_padded "'' x ''"]
  by (simp add: EDIT_PROMPTS_def)

subsection \<open>The transcriber\<close>

lemma recorder_apply_call: "recorder (apply_call t c) = recorder t"
  by (cases c)
    (auto simp: stop_def on_transcription_def record_audio_def Let_def
      split: option.splits sum.splits)

lemma recorder_foldl: "recorder (foldl apply_call t cs) = recorder t"
  by (induction cs arbitrary: t) (simp_all add: recorder_apply_call)

text \<open>
  Claim C10: on a transcriber on which \<^verbatim>\<open>start\<close> has never been called, whatever the
  constructor arguments and whatever other calls were made before, \<^verbatim>\<open>record\<close> raises
  a runtime error.
\<close>

theorem C10_record_before_start_raises:
  "record_audio (foldl apply_call (Transcriber_init m d cb) cs) =
     Inl (RuntimeError ''Transcriber not started. Call start() first.'')"
  by (simp add: record_audio_def recorder_foldl Transcriber_init_def)

theorem C10_record_before_start_raises_witness:
  "record_audio (foldl apply_call (Transcriber_init ''tiny'' ''cpu'' (None :: unit option))
      [Record, OnTranscription ''he'', Stop]) =
     Inl (RuntimeError ''Transcriber not started. Call start() first.'')"
  using C10_record_before_start_raises
    [of "''tiny''" "''cpu''" "None :: unit option" "[Record, OnTranscription ''he'', Stop]"]
  by simp

subsection \<open>The session document\<close>

text \<open>The title substitution on a file that starts with the placeholder heading.\<close>

lemma split_lines_not_Nil: "split_lines s \<noteq> []"
  by (induction s) (auto split: list.splits)

lemma join_Cons_Cons: "join sep ((c # l) # ls) = c # join sep (l # ls)"
  by (cases ls) simp_all

lemma join_split_lines: "join ''\<newline>'' (split_lines s) = s"
proof (induction s)
  case Nil
  show ?case by simp
next
  case (Cons c cs)
  obtain l ls where sp: "split_lines cs = l # ls"
    using split_lines_not_Nil[of cs] by (cases "split_lines cs") auto
  show ?case
  proof (cases "c = CHR 0x0A")
    case True
    with Cons sp show ?thesis by simp
  next
    case False
    with Cons sp show ?thesis by (simp add: join_Cons_Cons)
  qed
qed

lemma split_lines_append_nl:
  "CHR 0x0A \<notin> set h \<Longrightarrow> split_lines (h @ CHR 0x0A # rest) = h # split_lines rest"
  by (induction h) auto

lemma join_Cons_split: "join ''\<newline>'' (x # split_lines rest) = x @ CHR 0x0A # rest"
proof -
  obtain l ls where sp: "split_lines rest = l # ls"
    using split_lines_not_Nil[of rest] by (cases "split_lines rest") auto
  have "join ''\<newline>'' (x # l # ls) = x @ ''\<newline>'' @ join ''\<newline>'' (l # ls)" by simp
  also have "join ''\<newline>'' (l # ls) = rest" using join_split_lines[of rest] sp by simp
  finally show ?thesis using sp by simp
qed

lemma re_sub_title_first_line:
  assumes "CHR 0x0A \<notin> set h" and "matches_heading h"
  shows "re_sub_title repl (h @ CHR 0x0A # rest) = repl @ CHR 0x0A # rest"
  using assms by (simp add: re_sub_title_def split_lines_append_nl join_Cons_split)

lemma re_sub_title_header:
  "re_sub_title (''# '' @ ttl) (session_header ''Untitled Session'' t0 @ blk) = session_header ttl t0 @ blk"
proof -
  have "re_sub_title (''# '' @ ttl) (''# Untitled Session'' @ CHR 0x0A #
          (''\<newline>**Session Started:** '' @ strftime_minute t0
             @ ''\<newline>\<newline>---\<newline>\<newline>## Raw Transcription\<newline>\<newline>'' @ blk))
        = (''# '' @ ttl) @ CHR 0x0A # (''\<newline>**Session Started:** '' @ strftime_minute t0
             @ ''\<newline>\<newline>---\<newline>\<newline>## Raw Transcription\<newline>\<newline>'' @ blk)"
    by (rule re_sub_title_first_line) (simp_all add: matches_heading_def)
  then show ?thesis by (simp add: session_header_def)
qed

text \<open>Reading translates nothing in a text without carriage returns.\<close>

lemma universal_newlines_Cons:
  "c \<noteq> CHR 0x0D \<Longrightarrow> universal_newlines (c # xs) = c # universal_newlines xs"
  by (cases xs) simp_all

lemma universal_newlines_append:
  "CHR 0x0D \<notin> set a \<Longrightarrow> universal_newlines (a @ b) = a @ universal_newlines b"
proof (induction a)
  case Nil
  show ?case by simp
next
  case (Cons c a)
  then have "c \<noteq> CHR 0x0D" and "CHR 0x0D \<notin> set a" by auto
  with Cons.IH show ?case by (simp add: universal_newlines_Cons)
qed


lemma digit_not_CR: "CHR 0x0D \<noteq> digit n"
proof -
  have "n mod 10 < length ''0123456789''" by simp
  then have "digit n \<in> set ''0123456789''" unfolding digit_def by (rule nth_mem)
  then show ?thesis by auto
qed

lemma strftime_minute_no_CR: "CHR 0x0D \<notin> set (strftime_minute t)"
  by (simp add: strftime_minute_def pad2_def pad4_def digit_not_CR)


lemma session_header_no_CR: "CHR 0x0D \<notin> set (session_header ''Untitled Session'' t0)"
  using strftime_minute_no_CR[of t0] by (simp add: session_header_def)


lemma re_sub_title_header_read:
  "re_sub_title (''# '' @ ttl) (universal_newlines (session_header ''Untitled Session'' t0 @ blk)) =
     session_header ttl t0 @ universal_newlines blk"
  by (simp only: universal_newlines_append[OF session_header_no_CR] re_sub_title_header)

text \<open>The operations, one equation for each path through them.\<close>

lemma init_eq:
  "SessionManager_init e dir t0 w =
     (w\<lparr>files := (files w)(path_join (dir_or_default e dir) (strftime_file t0 @ ''_session.md'')
                        \<mapsto> session_header ''Untitled Session'' t0)\<rparr>,
      \<lparr>output_dir = dir_or_default e dir, session_start = t0, transcriptions = [],
       title = ''Untitled Session'',
       filepath = path_join (dir_or_default e dir) (strftime_file t0 @ ''_session.md'')\<rparr>)"
  by (simp add: SessionManager_init_def create_session_file_def write_file_def Let_def)

lemma add_later:
  "transcriptions s \<noteq> [] \<Longrightarrow>
   add_transcription e now text cl (w, s) =
     (append_file (filepath s) (entry_block (strftime_time now) (cleaned_or cl text)) w,
      s\<lparr>transcriptions := transcriptions s
            @ [\<lparr>time = strftime_time now, raw = text, cleaned = cleaned_or cl text\<rparr>]\<rparr>)"
  by (cases "transcriptions s") (simp_all add: add_transcription_def Let_def)

lemma add_first:
  "transcriptions s = [] \<Longrightarrow>
   add_transcription e now text cl (w, s) =
     generate_title e (cleaned_or cl text)
       (append_file (filepath s) (entry_block (strftime_time now) (cleaned_or cl text)) w,
        s\<lparr>transcriptions := [\<lparr>time = strftime_time now, raw = text, cleaned = cleaned_or cl text\<rparr>]\<rparr>)"
  by (simp add: add_transcription_def Let_def)

lemma generate_title_fail:
  "invoke (llm e) (render title_template (take 200 ft)) = Inl err \<Longrightarrow>
   generate_title e ft (w, s) =
     (w\<lparr>llm_calls := llm_calls w @ [render title_template (take 200 ft)]\<rparr>, s)"
  by (simp add: generate_title_def call_llm_def)

lemma sanitize_take_sanitize: "sanitize (take n (sanitize x)) = take n (sanitize x)"
proof -
  have "\<forall>c \<in> set (take n (sanitize x)). is_word c \<or> is_space c \<or> c = CHR ''-''"
    using set_take_subset[of n "sanitize x"] by (auto simp: sanitize_def)
  then have "filter (\<lambda>c. is_word c \<or> is_space c \<or> c = CHR ''-'') (take n (sanitize x)) = take n (sanitize x)"
    by (simp only: filter_True)
  then show ?thesis by (simp add: sanitize_def)
qed

lemma new_filepath_of_title:
  "new_filepath_of (s\<lparr>title := take 50 (sanitize x)\<rparr>) =
     path_join (output_dir s)
       (strftime_file (session_start s) @ ''_'' @ take 30 (replace_spaces (sanitize x)) @ ''.md'')"
  by (simp add: new_filepath_of_def sanitize_take_sanitize replace_spaces_def take_map Let_def)

lemma generate_title_ok:
  assumes "invoke (llm e) (render title_template (take 200 ft)) = Inr out"
    and "files w (filepath s) = Some content"
  shows "generate_title e ft (w, s) =
     (if rename_fails e (filepath s) (new_filepath_of (s\<lparr>title := take 50 (sanitize (strip out))\<rparr>))
      then (w\<lparr>llm_calls := llm_calls w @ [render title_template (take 200 ft)],
              files := (files w)(filepath s \<mapsto>
                          re_sub_title (''# '' @ take 50 (sanitize (strip out)))
                            (universal_newlines content))\<rparr>,
            s\<lparr>title := take 50 (sanitize (strip out))\<rparr>)
      else (w\<lparr>llm_calls := llm_calls w @ [render title_template (take 200 ft)],
              files := ((files w)(filepath s := None))
                 (new_filepath_of (s\<lparr>title := take 50 (sanitize (strip out))\<rparr>) \<mapsto>
                          re_sub_title (''# '' @ take 50 (sanitize (strip out)))
                            (universal_newlines content))\<rparr>,
            s\<lparr>title := take 50 (sanitize (strip out)),
              filepath := new_filepath_of (s\<lparr>title := take 50 (sanitize (strip out))\<rparr>)\<rparr>))"
  using assms
  by (simp add: generate_title_def call_llm_def update_file_title_def read_file_def
      write_file_def rename_file_def Let_def new_filepath_of_def)

lemma generate_title_frame:
  "transcriptions (snd (generate_title e ft (w, s))) = transcriptions s \<and>
   llm_calls (fst (generate_title e ft (w, s))) = llm_calls w @ [render title_template (take 200 ft)] \<and>
   output_dir (snd (generate_title e ft (w, s))) = output_dir s \<and>
   session_start (snd (generate_title e ft (w, s))) = session_start s"
  by (simp add: generate_title_def call_llm_def update_file_title_def read_file_def
      write_file_def rename_file_def Let_def split: sum.splits option.splits)

lemma finalize_empty:
  "transcriptions s = [] \<Longrightarrow> finalize e organize now (w, s) = (None, (w, s))"
  by (simp add: finalize_def)

lemma finalize_plain:
  "transcriptions s \<noteq> [] \<Longrightarrow>
   finalize e False now (w, s) =
     (Some (filepath s),
      (append_file (filepath s)
         (summary_header @ join ''\<newline>'' (map cleaned (transcriptions s)) @ summary_footer now) w,
       s))"
  by (simp add: finalize_def Let_def)

lemma finalize_organize:
  "transcriptions s \<noteq> [] \<Longrightarrow>
   finalize e True now (w, s) =
     (Some (filepath s),
      (append_file (filepath s)
         (summary_header
            @ organized_text
                (invoke (llm e) (render organize_template (join ''\<newline>'' (map cleaned (transcriptions s)))))
                (join ''\<newline>'' (map cleaned (transcriptions s)))
            @ summary_footer now)
         (w\<lparr>llm_calls := llm_calls w
               @ [render organize_template (join ''\<newline>'' (map cleaned (transcriptions s)))]\<rparr>),
       s))"
  by (simp add: finalize_def call_llm_def Let_def)

lemma finalize_session: "snd (snd (finalize e organize now (w, s))) = s"
  by (simp add: finalize_def call_llm_def Let_def split: prod.splits)

lemma content_of_append_file:
  "content_of (append_file p c w) p = content_of w p @ c"
  by (simp add: content_of_def append_file_def split: option.splits)

lemma llm_calls_append_file: "llm_calls (append_file p c w) = llm_calls w"
  by (simp add: append_file_def)

lemma append_file_files:
  "append_file p c w = w\<lparr>files := (files w)(p \<mapsto> content_of w p @ c)\<rparr>"
  by (simp add: append_file_def content_of_def split: option.splits)

lemma transcriptions_add:
  "transcriptions (snd (add_transcription e now text cl st)) =
     transcriptions (snd st)
       @ [\<lparr>time = strftime_time now, raw = text, cleaned = cleaned_or cl text\<rparr>]"
proof (cases st)
  case (Pair w s)
  show ?thesis
  proof (cases "transcriptions s = []")
    case True
    with Pair show ?thesis by (simp add: add_first generate_title_frame)
  next
    case False
    with Pair show ?thesis by (simp add: add_later)
  qed
qed

lemma add_all_later:
  "transcriptions (snd st) \<noteq> [] \<Longrightarrow>
   llm_calls (fst (add_all e st adds)) = llm_calls (fst st) \<and>
   title (snd (add_all e st adds)) = title (snd st)"
proof (induction adds arbitrary: st)
  case Nil
  show ?case by simp
next
  case (Cons a adds)
  obtain now tx cl where a: "a = (now, tx, cl)" by (cases a) auto
  obtain w s where st: "st = (w, s)" by (cases st) auto
  let ?st' = "add_transcription e now tx cl st"
  have ne: "transcriptions (snd ?st') \<noteq> []" by (simp add: transcriptions_add)
  have step: "llm_calls (fst ?st') = llm_calls (fst st) \<and> title (snd ?st') = title (snd st)"
    using Cons.prems st by (simp add: add_later llm_calls_append_file)
  from Cons.IH[OF ne] step a show ?case by simp
qed

lemma first_add_calls:
  "llm_calls (fst (add_transcription e now text cl (SessionManager_init e dir t0 w))) =
     llm_calls w @ [render title_template (take 200 (cleaned_or cl text))]"
  by (simp add: init_eq add_first generate_title_frame llm_calls_append_file)

lemma first_add_fail:
  assumes "invoke (llm e) (render title_template (take 200 (cleaned_or cl text))) = Inl err"
  shows "add_transcription e now text cl (SessionManager_init e dir t0 w) =
     (w\<lparr>files := (files w)(path_join (dir_or_default e dir) (strftime_file t0 @ ''_session.md'')
              \<mapsto> session_header ''Untitled Session'' t0
                    @ entry_block (strftime_time now) (cleaned_or cl text)),
         llm_calls := llm_calls w @ [render title_template (take 200 (cleaned_or cl text))]\<rparr>,
      \<lparr>output_dir = dir_or_default e dir, session_start = t0,
       transcriptions = [\<lparr>time = strftime_time now, raw = text, cleaned = cleaned_or cl text\<rparr>],
       title = ''Untitled Session'',
       filepath = path_join (dir_or_default e dir) (strftime_file t0 @ ''_session.md'')\<rparr>)"
  using assms
  by (simp add: init_eq add_first generate_title_fail append_file_def)

lemma first_add_ok:
  assumes "invoke (llm e) (render title_template (take 200 (cleaned_or cl text))) = Inr out"
  shows "add_transcription e now text cl (SessionManager_init e dir t0 w) =
     (if rename_fails e (path_join (dir_or_default e dir) (strftime_file t0 @ ''_session.md''))
           (path_join (dir_or_default e dir)
              (strftime_file t0 @ ''_'' @ take 30 (replace_spaces (sanitize (strip out))) @ ''.md''))
      then
        (w\<lparr>files := (files w)(path_join (dir_or_default e dir) (strftime_file t0 @ ''_session.md'')
              \<mapsto> session_header (take 50 (sanitize (strip out))) t0
                    @ universal_newlines (entry_block (strftime_time now) (cleaned_or cl text))),
           llm_calls := llm_calls w @ [render title_template (take 200 (cleaned_or cl text))]\<rparr>,
         \<lparr>output_dir = dir_or_default e dir, session_start = t0,
          transcriptions = [\<lparr>time = strftime_time now, raw = text, cleaned = cleaned_or cl text\<rparr>],
          title = take 50 (sanitize (strip out)),
          filepath = path_join (dir_or_default e dir) (strftime_file t0 @ ''_session.md'')\<rparr>)
      else
        (w\<lparr>files := ((files w)(path_join (dir_or_default e dir) (strftime_file t0 @ ''_session.md'') := None))
              (path_join (dir_or_default e dir)
                 (strftime_file t0 @ ''_'' @ take 30 (replace_spaces (sanitize (strip out))) @ ''.md'')
               \<mapsto> session_header (take 50 (sanitize (strip out))) t0
                    @ universal_newlines (entry_block (strftime_time now) (cleaned_or cl text))),
           llm_calls := llm_calls w @ [render title_template (take 200 (cleaned_or cl text))]\<rparr>,
         \<lparr>output_dir = dir_or_default e dir, session_start = t0,
          transcriptions = [\<lparr>time = strftime_time now, raw = text, cleaned = cleaned_or cl text\<rparr>],
          title = take 50 (sanitize (strip out)),
          filepath = path_join (dir_or_default e dir)
                 (strftime_file t0 @ ''_'' @ take 30 (replace_spaces (sanitize (strip out))) @ ''.md'')\<rparr>))"
proof -
  let ?p0 = "path_join (dir_or_default e dir) (strftime_file t0 @ ''_session.md'')"
  let ?blk = "entry_block (strftime_time now) (cleaned_or cl text)"
  let ?w1 = "append_file ?p0 ?blk
               (w\<lparr>files := (files w)(?p0 \<mapsto> session_header ''Untitled Session'' t0)\<rparr>)"
  let ?s1 = "\<lparr>output_dir = dir_or_default e dir, session_start = t0,
       transcriptions = [\<lparr>time = strftime_time now, raw = text, cleaned = cleaned_or cl text\<rparr>],
       title = ''Untitled Session'', filepath = ?p0\<rparr>"
  have f: "files ?w1 (filepath ?s1) = Some (session_header ''Untitled Session'' t0 @ ?blk)"
    by (simp add: append_file_def)
  have "add_transcription e now text cl (SessionManager_init e dir t0 w) =
          generate_title e (cleaned_or cl text) (?w1, ?s1)"
    by (simp add: init_eq add_first)
  also have "\<dots> =
     (if rename_fails e (filepath ?s1) (new_filepath_of (?s1\<lparr>title := take 50 (sanitize (strip out))\<rparr>))
      then (?w1\<lparr>llm_calls := llm_calls ?w1 @ [render title_template (take 200 (cleaned_or cl text))],
              files := (files ?w1)(filepath ?s1 \<mapsto>
                          re_sub_title (''# '' @ take 50 (sanitize (strip out)))
                            (universal_newlines (session_header ''Untitled Session'' t0 @ ?blk)))\<rparr>,
            ?s1\<lparr>title := take 50 (sanitize (strip out))\<rparr>)
      else (?w1\<lparr>llm_calls := llm_calls ?w1 @ [render title_template (take 200 (cleaned_or cl text))],
              files := ((files ?w1)(filepath ?s1 := None))
                 (new_filepath_of (?s1\<lparr>title := take 50 (sanitize (strip out))\<rparr>) \<mapsto>
                          re_sub_title (''# '' @ take 50 (sanitize (strip out)))
                            (universal_newlines (session_header ''Untitled Session'' t0 @ ?blk)))\<rparr>,
            ?s1\<lparr>title := take 50 (sanitize (strip out)),
              filepath := new_filepath_of (?s1\<lparr>title := take 50 (sanitize (strip out))\<rparr>)\<rparr>))"
    by (rule generate_title_ok[OF assms f])
  finally have main: "add_transcription e now text cl (SessionManager_init e dir t0 w) =
     (if rename_fails e (filepath ?s1) (new_filepath_of (?s1\<lparr>title := take 50 (sanitize (strip out))\<rparr>))
      then (?w1\<lparr>llm_calls := llm_calls ?w1 @ [render title_template (take 200 (cleaned_or cl text))],
              files := (files ?w1)(filepath ?s1 \<mapsto>
                          re_sub_title (''# '' @ take 50 (sanitize (strip out)))
                            (universal_newlines (session_header ''Untitled Session'' t0 @ ?blk)))\<rparr>,
            ?s1\<lparr>title := take 50 (sanitize (strip out))\<rparr>)
      else (?w1\<lparr>llm_calls := llm_calls ?w1 @ [render title_template (take 200 (cleaned_or cl text))],
              files := ((files ?w1)(filepath ?s1 := None))
                 (new_filepath_of (?s1\<lparr>title := take 50 (sanitize (strip out))\<rparr>) \<mapsto>
                          re_sub_title (''# '' @ take 50 (sanitize (strip out)))
                            (universal_newlines (session_header ''Untitled Session'' t0 @ ?blk)))\<rparr>,
            ?s1\<lparr>title := take 50 (sanitize (strip out)),
              filepath := new_filepath_of (?s1\<lparr>title := take 50 (sanitize (strip out))\<rparr>)\<rparr>))" .
  have np: "new_filepath_of (?s1\<lparr>title := take 50 (sanitize (strip out))\<rparr>) =
      path_join (dir_or_default e dir)
        (strftime_file t0 @ ''_'' @ take 30 (replace_spaces (sanitize (strip out))) @ ''.md'')"
    by (rule trans[OF new_filepath_of_title]) simp
  have rs: "re_sub_title (''# '' @ take 50 (sanitize (strip out)))
              (universal_newlines (session_header ''Untitled Session'' t0 @ ?blk)) =
            session_header (take 50 (sanitize (strip out))) t0 @ universal_newlines ?blk"
    by (rule re_sub_title_header_read)
  show ?thesis
    unfolding main np rs by (simp add: append_file_def)
qed

lemma first_add_title:
  "title (snd (add_transcription e now text cl (SessionManager_init e dir t0 w))) =
     (case invoke (llm e) (render title_template (take 200 (cleaned_or cl text))) of
        Inl err \<Rightarrow> ''Untitled Session''
      | Inr out \<Rightarrow> take 50 (sanitize (strip out)))"
proof (cases "invoke (llm e) (render title_template (take 200 (cleaned_or cl text)))")
  case (Inl err)
  show ?thesis unfolding first_add_fail[OF Inl] by (simp add: Inl)
next
  case (Inr out)
  show ?thesis unfolding first_add_ok[OF Inr] by (simp add: Inr)
qed

text \<open>
  Claim C4: over any sequence of \<^verbatim>\<open>add_transcription\<close> calls on a new session, the
  title inference runs exactly once, on the first entry: exactly one prompt is sent to
  the completion service, the title prompt rendered from the first entry; the title is
  set from its answer (trimmed, sanitised, cut to 50 characters; the placeholder stays
  when the completion fails); and the entries after the first send no prompt and leave
  the title as the first one set it.
\<close>

theorem C4_title_inference_once:
  "llm_calls (fst (add_all e (SessionManager_init e dir t0 w) adds)) =
     llm_calls w @ (case adds of [] \<Rightarrow> []
                    | (now, text, cl) # rest \<Rightarrow> [render title_template (take 200 (cleaned_or cl text))]) \<and>
   title (snd (add_all e (SessionManager_init e dir t0 w) adds)) =
     (case adds of [] \<Rightarrow> ''Untitled Session''
      | (now, text, cl) # rest \<Rightarrow>
          (case invoke (llm e) (render title_template (take 200 (cleaned_or cl text))) of
             Inl err \<Rightarrow> ''Untitled Session''
           | Inr out \<Rightarrow> take 50 (sanitize (strip out)))) \<and>
   title (snd (add_all e (SessionManager_init e dir t0 w) (a # rest'))) =
     title (snd (add_all e (SessionManager_init e dir t0 w) [a]))"
proof (intro conjI)
  show "llm_calls (fst (add_all e (SessionManager_init e dir t0 w) adds)) =
     llm_calls w @ (case adds of [] \<Rightarrow> []
                    | (now, text, cl) # rest \<Rightarrow> [render title_template (take 200 (cleaned_or cl text))])"
  proof (cases adds)
    case Nil
    then show ?thesis by (simp add: init_eq)
  next
    case (Cons x rest)
    obtain now tx cl where x: "x = (now, tx, cl)" by (cases x) auto
    have ne: "transcriptions (snd (add_transcription e now tx cl (SessionManager_init e dir t0 w))) \<noteq> []"
      by (simp add: transcriptions_add)
    from add_all_later[OF ne, of e rest] Cons x show ?thesis
      by (simp add: first_add_calls)
  qed
  show "title (snd (add_all e (SessionManager_init e dir t0 w) adds)) =
     (case adds of [] \<Rightarrow> ''Untitled Session''
      | (now, text, cl) # rest \<Rightarrow>
          (case invoke (llm e) (render title_template (take 200 (cleaned_or cl text))) of
             Inl err \<Rightarrow> ''Untitled Session''
           | Inr out \<Rightarrow> take 50 (sanitize (strip out))))"
  proof (cases adds)
    case Nil
    then show ?thesis by (simp add: init_eq)
  next
    case (Cons x rest)
    obtain now tx cl where x: "x = (now, tx, cl)" by (cases x) auto
    have ne: "transcriptions (snd (add_transcription e now tx cl (SessionManager_init e dir t0 w))) \<noteq> []"
      by (simp add: transcriptions_add)
    from add_all_later[OF ne, of e rest] Cons x show ?thesis
      by (simp add: first_add_title)
  qed
  obtain now tx cl where a: "a = (now, tx, cl)" by (cases a) auto
  have ne: "transcriptions (snd (add_transcription e now tx cl (SessionManager_init e dir t0 w))) \<noteq> []"
    by (simp add: transcriptions_add)
  from add_all_later[OF ne, of e rest'] a
  show "title (snd (add_all e (SessionManager_init e dir t0 w) (a # rest'))) =
     title (snd (add_all e (SessionManager_init e dir t0 w) [a]))" by simp
qed

lemma content_of_llm_calls: "content_of (w\<lparr>llm_calls := x\<rparr>) p = content_of w p"
  by (simp add: content_of_def)

lemma finalize_result:
  "transcriptions s \<noteq> [] \<Longrightarrow> fst (finalize e organize now (w, s)) = Some (filepath s)"
  by (cases organize) (simp_all add: finalize_plain finalize_organize)

lemma finalize_content:
  "transcriptions s \<noteq> [] \<Longrightarrow>
   content_of (fst (snd (finalize e organize now (w, s)))) (filepath s) =
     content_of w (filepath s) @ summary_header
       @ (if organize
          then organized_text
                 (invoke (llm e)
                    (render organize_template (join ''\<newline>'' (map cleaned (transcriptions s)))))
                 (join ''\<newline>'' (map cleaned (transcriptions s)))
          else join ''\<newline>'' (map cleaned (transcriptions s)))
       @ summary_footer now"
  by (cases organize)
    (simp_all add: finalize_plain finalize_organize content_of_append_file content_of_llm_calls)

lemma add_later_content:
  assumes "transcriptions (snd st) \<noteq> []"
  shows "content_of (fst (add_transcription e now text cl st))
           (filepath (snd (add_transcription e now text cl st))) =
         content_of (fst st) (filepath (snd st))
           @ entry_block (strftime_time now) (cleaned_or cl text)"
  using assms by (cases st) (simp add: add_later content_of_append_file)

text \<open>
  Claim C1, amended: \<^verbatim>\<open>finalize\<close> keeps no "finalized" mark and \<^verbatim>\<open>add_transcription\<close>
  checks none. After \<^verbatim>\<open>finalize\<close> on a session with at least one entry, a later
  \<^verbatim>\<open>add_transcription\<close> is accepted for every raw/cleaned pair: it appends the entry to
  the list and its block to the end of the file, as it does before \<^verbatim>\<open>finalize\<close>.
\<close>
theorem C1_add_after_finalize_appends:
  "transcriptions s \<noteq> [] \<Longrightarrow>
   fst (finalize e organize t1 (w, s)) = Some (filepath s) \<and>
   snd (snd (finalize e organize t1 (w, s))) = s \<and>
   add_transcription e t2 text cl (snd (finalize e organize t1 (w, s))) =
     (append_file (filepath s) (entry_block (strftime_time t2) (cleaned_or cl text))
        (fst (snd (finalize e organize t1 (w, s)))),
      s\<lparr>transcriptions := transcriptions s
            @ [\<lparr>time = strftime_time t2, raw = text, cleaned = cleaned_or cl text\<rparr>]\<rparr>) \<and>
   content_of (fst (add_transcription e t2 text cl (snd (finalize e organize t1 (w, s)))))
       (filepath s) =
     content_of (fst (snd (finalize e organize t1 (w, s)))) (filepath s)
       @ entry_block (strftime_time t2) (cleaned_or cl text)"
proof -
  assume ne: "transcriptions s \<noteq> []"
  obtain w' where fin: "snd (finalize e organize t1 (w, s)) = (w', s)"
    using finalize_session[of e organize t1 w s]
    by (cases "snd (finalize e organize t1 (w, s))") simp
  show ?thesis
    using ne fin
    by (simp add: finalize_result add_later content_of_append_file)
qed

text \<open>
  Claim C6, amended: on a session with at least one entry, \<^verbatim>\<open>finalize(organize=False)\<close>
  appends the closing section header, then the cleaned texts of all entries in append
  order joined by single line feeds, then the closing timestamp footer, and sends no
  prompt; with no entry, \<^verbatim>\<open>finalize\<close> writes nothing and returns normally.
\<close>
theorem C6_finalize_plain:
  "(transcriptions s \<noteq> [] \<longrightarrow>
      finalize e False now (w, s) =
        (Some (filepath s),
         (w\<lparr>files := (files w)(filepath s \<mapsto>
               content_of w (filepath s) @ summary_header
                 @ join ''\<newline>'' (map cleaned (transcriptions s)) @ summary_footer now)\<rparr>,
          s))) \<and>
   (transcriptions s = [] \<longrightarrow> finalize e organize now (w, s) = (None, (w, s)))"
  by (simp add: finalize_plain finalize_empty append_file_files)


text \<open>
  Claim C5: on the first entry, a failing title completion leaves the title at the
  placeholder and the file under its provisional path, with nothing renamed; a failing
  rename leaves the path at the provisional one, where the file stands as the title
  update rewrote it. In every case the call returns
  normally and the session goes on working: a later \<^verbatim>\<open>add_transcription\<close> appends its
  block and \<^verbatim>\<open>finalize\<close> appends the summary section and returns the path.
\<close>
theorem C5_title_failures_swallowed:
  fixes e :: env and dir t0 w now "text" cl
  defines "st0 \<equiv> SessionManager_init e dir t0 w"
  defines "st1 \<equiv> add_transcription e now text cl st0"
  defines "blk \<equiv> entry_block (strftime_time now) (cleaned_or cl text)"
  shows
  "(invoke (llm e) (render title_template (take 200 (cleaned_or cl text))) = Inl err \<longrightarrow>
      title (snd st1) = ''Untitled Session'' \<and>
      filepath (snd st1) = filepath (snd st0) \<and>
      files (fst st1) =
        (files (fst st0))(filepath (snd st0) \<mapsto> session_header ''Untitled Session'' t0 @ blk)) \<and>
   (invoke (llm e) (render title_template (take 200 (cleaned_or cl text))) = Inr out \<and>
    rename_fails e (filepath (snd st0))
      (new_filepath_of ((snd st0)\<lparr>title := take 50 (sanitize (strip out))\<rparr>)) \<longrightarrow>
      title (snd st1) = take 50 (sanitize (strip out)) \<and>
      filepath (snd st1) = filepath (snd st0) \<and>
      files (fst st1) =
        (files (fst st0))(filepath (snd st0) \<mapsto>
           session_header (take 50 (sanitize (strip out))) t0 @ universal_newlines blk)) \<and>
   transcriptions (snd st1) \<noteq> [] \<and>
   add_transcription e now2 text2 cl2 st1 =
     (append_file (filepath (snd st1))
        (entry_block (strftime_time now2) (cleaned_or cl2 text2)) (fst st1),
      (snd st1)\<lparr>transcriptions := transcriptions (snd st1)
            @ [\<lparr>time = strftime_time now2, raw = text2, cleaned = cleaned_or cl2 text2\<rparr>]\<rparr>) \<and>
   fst (finalize e organize now3 st1) = Some (filepath (snd st1)) \<and>
   content_of (fst (snd (finalize e organize now3 st1))) (filepath (snd st1)) =
     content_of (fst st1) (filepath (snd st1)) @ summary_header
       @ (if organize
          then organized_text
                 (invoke (llm e)
                    (render organize_template
                       (join ''\<newline>'' (map cleaned (transcriptions (snd st1))))))
                 (join ''\<newline>'' (map cleaned (transcriptions (snd st1))))
          else join ''\<newline>'' (map cleaned (transcriptions (snd st1))))
       @ summary_footer now3"
proof -
  have ne: "transcriptions (snd st1) \<noteq> []"
    unfolding st1_def by (simp add: transcriptions_add)
  obtain w1 s1 where st1: "st1 = (w1, s1)" by (cases st1) auto
  have A: "invoke (llm e) (render title_template (take 200 (cleaned_or cl text))) = Inl err \<longrightarrow>
      title (snd st1) = ''Untitled Session'' \<and>
      filepath (snd st1) = filepath (snd st0) \<and>
      files (fst st1) =
        (files (fst st0))(filepath (snd st0) \<mapsto> session_header ''Untitled Session'' t0 @ blk)"
  proof
    assume f: "invoke (llm e) (render title_template (take 200 (cleaned_or cl text))) = Inl err"
    show "title (snd st1) = ''Untitled Session'' \<and>
      filepath (snd st1) = filepath (snd st0) \<and>
      files (fst st1) =
        (files (fst st0))(filepath (snd st0) \<mapsto> session_header ''Untitled Session'' t0 @ blk)"
      unfolding st1_def st0_def first_add_fail[OF f] blk_def by (simp add: init_eq)
  qed
  have B: "invoke (llm e) (render title_template (take 200 (cleaned_or cl text))) = Inr out \<and>
    rename_fails e (filepath (snd st0))
      (new_filepath_of ((snd st0)\<lparr>title := take 50 (sanitize (strip out))\<rparr>)) \<longrightarrow>
      title (snd st1) = take 50 (sanitize (strip out)) \<and>
      filepath (snd st1) = filepath (snd st0) \<and>
      files (fst st1) =
        (files (fst st0))(filepath (snd st0) \<mapsto>
           session_header (take 50 (sanitize (strip out))) t0 @ universal_newlines blk)"
  proof
    assume h: "invoke (llm e) (render title_template (take 200 (cleaned_or cl text))) = Inr out \<and>
      rename_fails e (filepath (snd st0))
        (new_filepath_of ((snd st0)\<lparr>title := take 50 (sanitize (strip out))\<rparr>))"
    then have ok: "invoke (llm e) (render title_template (take 200 (cleaned_or cl text))) = Inr out"
      by simp
    have "new_filepath_of ((snd st0)\<lparr>title := take 50 (sanitize (strip out))\<rparr>) =
        path_join (dir_or_default e dir)
          (strftime_file t0 @ ''_'' @ take 30 (replace_spaces (sanitize (strip out))) @ ''.md'')"
      unfolding st0_def by (rule trans[OF new_filepath_of_title]) (simp add: init_eq)
    with h have rf: "rename_fails e (path_join (dir_or_default e dir) (strftime_file t0 @ ''_session.md''))
        (path_join (dir_or_default e dir)
          (strftime_file t0 @ ''_'' @ take 30 (replace_spaces (sanitize (strip out))) @ ''.md''))"
      unfolding st0_def by (simp add: init_eq)
    show "title (snd st1) = take 50 (sanitize (strip out)) \<and>
      filepath (snd st1) = filepath (snd st0) \<and>
      files (fst st1) =
        (files (fst st0))(filepath (snd st0) \<mapsto>
           session_header (take 50 (sanitize (strip out))) t0 @ universal_newlines blk)"
      unfolding st1_def st0_def first_add_ok[OF ok] blk_def using rf by (simp add: init_eq)
  qed
  have C: "add_transcription e now2 text2 cl2 st1 =
     (append_file (filepath (snd st1))
        (entry_block (strftime_time now2) (cleaned_or cl2 text2)) (fst st1),
      (snd st1)\<lparr>transcriptions := transcriptions (snd st1)
            @ [\<lparr>time = strftime_time now2, raw = text2, cleaned = cleaned_or cl2 text2\<rparr>]\<rparr>)"
    using ne st1 by (simp add: add_later)
  have D: "fst (finalize e organize now3 st1) = Some (filepath (snd st1))"
    using ne st1 by (simp add: finalize_result)
  have E: "content_of (fst (snd (finalize e organize now3 st1))) (filepath (snd st1)) =
     content_of (fst st1) (filepath (snd st1)) @ summary_header
       @ (if organize
          then organized_text
                 (invoke (llm e)
                    (render organize_template
                       (join ''\<newline>'' (map cleaned (transcriptions (snd st1))))))
                 (join ''\<newline>'' (map cleaned (transcriptions (snd st1))))
          else join ''\<newline>'' (map cleaned (transcriptions (snd st1))))
       @ summary_footer now3"
    using ne st1 finalize_content[of s1 e organize now3 w1] by simp
  from A B ne C D E show ?thesis by blast
qed

text \<open>
  Claim C8, amended: the file is created as \<^verbatim>\<open><YYYY-MM-DD_HH-MM>_session.md\<close>. After a
  successful title inference the title is the trimmed completion without the characters
  outside \<^verbatim>\<open>\w\<close>, \<^verbatim>\<open>\s\<close> (any whitespace, not only the space) and the hyphen, cut to
  50 characters; the file is renamed to \<^verbatim>\<open><YYYY-MM-DD_HH-MM>_<safe>.md\<close>, where
  \<open>safe\<close> is that text with each space (U+0020 only) replaced by an underscore, cut to
  30 characters; when the rename fails the provisional path is kept.
\<close>
theorem C8_filename_convention:
  fixes e :: env and dir t0 w now "text" cl
  defines "st0 \<equiv> SessionManager_init e dir t0 w"
  defines "st1 \<equiv> add_transcription e now text cl st0"
  shows
  "filepath (snd st0) = path_join (dir_or_default e dir) (strftime_file t0 @ ''_session.md'') \<and>
   (invoke (llm e) (render title_template (take 200 (cleaned_or cl text))) = Inr out \<longrightarrow>
      title (snd st1) = take 50 (sanitize (strip out)) \<and>
      filepath (snd st1) =
        (if rename_fails e (filepath (snd st0))
              (path_join (dir_or_default e dir)
                 (strftime_file t0 @ ''_''
                    @ take 30 (replace_spaces (sanitize (strip out))) @ ''.md''))
         then filepath (snd st0)
         else path_join (dir_or_default e dir)
                (strftime_file t0 @ ''_''
                   @ take 30 (replace_spaces (sanitize (strip out))) @ ''.md'')))"
proof
  show "filepath (snd st0) = path_join (dir_or_default e dir) (strftime_file t0 @ ''_session.md'')"
    unfolding st0_def by (simp add: init_eq)
  show "invoke (llm e) (render title_template (take 200 (cleaned_or cl text))) = Inr out \<longrightarrow>
      title (snd st1) = take 50 (sanitize (strip out)) \<and>
      filepath (snd st1) =
        (if rename_fails e (filepath (snd st0))
              (path_join (dir_or_default e dir)
                 (strftime_file t0 @ ''_''
                    @ take 30 (replace_spaces (sanitize (strip out))) @ ''.md''))
         then filepath (snd st0)
         else path_join (dir_or_default e dir)
                (strftime_file t0 @ ''_''
                   @ take 30 (replace_spaces (sanitize (strip out))) @ ''.md''))"
  proof
    assume ok: "invoke (llm e) (render title_template (take 200 (cleaned_or cl text))) = Inr out"
    show "title (snd st1) = take 50 (sanitize (strip out)) \<and>
      filepath (snd st1) =
        (if rename_fails e (filepath (snd st0))
              (path_join (dir_or_default e dir)
                 (strftime_file t0 @ ''_''
                    @ take 30 (replace_spaces (sanitize (strip out))) @ ''.md''))
         then filepath (snd st0)
         else path_join (dir_or_default e dir)
                (strftime_file t0 @ ''_''
                   @ take 30 (replace_spaces (sanitize (strip out))) @ ''.md''))"
      unfolding st1_def st0_def first_add_ok[OF ok] by (simp add: init_eq)
  qed
qed

subsection \<open>The scenario, evaluated\<close>

lemma invoke_stub_title: "invoke stub_title p = Inr ''Greeting Note''"
  by (simp add: invoke_def stub_title_def)

lemma invoke_stub_two_lines: "invoke stub_two_lines p = Inr ''Greeting\<newline>Note''"
  by (simp add: invoke_def stub_two_lines_def)

lemma invoke_stub_down: "invoke stub_down p = Inl (CompletionServiceError ''connection refused'')"
  by (simp add: invoke_def stub_down_def)

lemma strftime_file_demo: "strftime_file demo_start = ''2024-01-01_10-00''"
  by (simp add: strftime_file_def demo_start_def pad2_def pad4_def digit_def)

lemma strftime_time_demo_later: "strftime_time demo_later = ''10:05:30''"
  by (simp add: strftime_time_def demo_later_def pad2_def digit_def)

lemma sanitize_greeting: "sanitize (strip ''Greeting Note'') = ''Greeting Note''"
  by (simp add: sanitize_def strip_def is_space_def is_word_def)

lemma sanitize_two_lines: "sanitize (strip ''Greeting\<newline>Note'') = ''Greeting\<newline>Note''"
  by (simp add: sanitize_def strip_def is_space_def is_word_def)

lemma strftime_time_demo_start: "strftime_time demo_start = ''10:00:00''"
  by (simp add: strftime_time_def demo_start_def pad2_def digit_def)

lemma demo_session_transcriptions:
  "transcriptions (snd demo_session) =
     [\<lparr>time = ''10:00:00'', raw = ''um hi there'', cleaned = ''Hi there.''\<rparr>]"
  unfolding demo_session_def
  by (simp add: transcriptions_add init_eq strftime_time_demo_start cleaned_or_def)

lemma demo_finalized_session: "snd demo_finalized = snd demo_session"
  unfolding demo_finalized_def
  using finalize_session[of demo_env True demo_later "fst demo_session" "snd demo_session"]
  by simp

lemma demo_two_transcriptions:
  "map cleaned (transcriptions (snd demo_two)) = [''Hi there.'', ''Bye.'']"
  unfolding demo_two_def
  by (simp add: transcriptions_add demo_session_transcriptions cleaned_or_def)

theorem C4_title_inference_once_witness:
  "llm_calls (fst (add_all demo_env (SessionManager_init demo_env None demo_start empty_world)
      [(demo_start, ''um hi there'', Some ''Hi there.''), (demo_later, ''uh bye'', Some ''Bye.'')])) =
     [render title_template ''Hi there.''] \<and>
   title (snd (add_all demo_env (SessionManager_init demo_env None demo_start empty_world)
      [(demo_start, ''um hi there'', Some ''Hi there.''), (demo_later, ''uh bye'', Some ''Bye.'')])) =
     ''Greeting Note''"
  using C4_title_inference_once [of demo_env None demo_start empty_world
      "[(demo_start, ''um hi there'', Some ''Hi there.''), (demo_later, ''uh bye'', Some ''Bye.'')]"]
  by (simp add: empty_world_def cleaned_or_def demo_env_def invoke_stub_title sanitize_greeting)

text \<open>
  Claim C1, as stated: after \<^verbatim>\<open>finalize\<close>, \<^verbatim>\<open>add_transcription\<close> is rejected and the
  file is left unchanged. It fails: on the finalized scenario session the call goes
  through, the file grows by the entry block and the entry list by one.
\<close>
theorem C1_add_after_finalize_counterexample:
  "content_of (fst (add_transcription demo_env demo_later ''one more'' None demo_finalized))
      (filepath (snd (add_transcription demo_env demo_later ''one more'' None demo_finalized))) =
     content_of (fst demo_finalized) (filepath (snd demo_finalized))
       @ ''**[10:05:30]** one more\<newline>\<newline>'' \<and>
   content_of (fst (add_transcription demo_env demo_later ''one more'' None demo_finalized))
      (filepath (snd (add_transcription demo_env demo_later ''one more'' None demo_finalized))) \<noteq>
     content_of (fst demo_finalized) (filepath (snd demo_finalized)) \<and>
   length (transcriptions (snd (add_transcription demo_env demo_later ''one more'' None demo_finalized))) =
     Suc (length (transcriptions (snd demo_finalized)))"
proof -
  have ne: "transcriptions (snd demo_finalized) \<noteq> []"
    by (simp add: demo_finalized_session demo_session_transcriptions)
  have blk: "entry_block (strftime_time demo_later) (cleaned_or None ''one more'') =
      ''**[10:05:30]** one more\<newline>\<newline>''"
    by (simp add: entry_block_def strftime_time_demo_later cleaned_or_def)
  show ?thesis
    using add_later_content[OF ne, of demo_env demo_later "''one more''" None]
    by (simp add: blk transcriptions_add)
qed

theorem C1_add_after_finalize_appends_witness:
  "transcriptions (snd demo_session) \<noteq> [] \<and>
   fst (finalize demo_env True demo_later demo_session) = Some (filepath (snd demo_session)) \<and>
   content_of (fst (add_transcription demo_env demo_later ''one more'' None
        (snd (finalize demo_env True demo_later demo_session)))) (filepath (snd demo_session)) =
     content_of (fst (snd (finalize demo_env True demo_later demo_session)))
        (filepath (snd demo_session)) @ ''**[10:05:30]** one more\<newline>\<newline>''"
proof -
  have ne: "transcriptions (snd demo_session) \<noteq> []"
    by (simp add: demo_session_transcriptions)
  show ?thesis
    using ne C1_add_after_finalize_appends [OF ne, of demo_env True demo_later "fst demo_session"
        demo_later "''one more''" None]
    by (auto simp: entry_block_def strftime_time_demo_later cleaned_or_def)
qed

text \<open>
  Claim C6, as stated: the text between the section header and the footer is the
  concatenation of the cleaned texts. It fails with two entries: a line feed separates
  them.
\<close>
theorem C6_finalize_concatenation_counterexample:
  "map cleaned (transcriptions (snd demo_two)) = [''Hi there.'', ''Bye.''] \<and>
   content_of (fst (snd (finalize demo_env False demo_later demo_two))) (filepath (snd demo_two)) =
     content_of (fst demo_two) (filepath (snd demo_two)) @ summary_header
       @ ''Hi there.\<newline>Bye.'' @ summary_footer demo_later \<and>
   content_of (fst (snd (finalize demo_env False demo_later demo_two))) (filepath (snd demo_two)) \<noteq>
     content_of (fst demo_two) (filepath (snd demo_two)) @ summary_header
       @ concat (map cleaned (transcriptions (snd demo_two))) @ summary_footer demo_later"
proof -
  have ne: "transcriptions (snd demo_two) \<noteq> []"
    using demo_two_transcriptions by auto
  have "content_of (fst (snd (finalize demo_env False demo_later (fst demo_two, snd demo_two))))
          (filepath (snd demo_two)) =
        content_of (fst demo_two) (filepath (snd demo_two)) @ summary_header
          @ join ''\<newline>'' (map cleaned (transcriptions (snd demo_two))) @ summary_footer demo_later"
    using finalize_content[OF ne, of demo_env False demo_later "fst demo_two"] by simp
  then show ?thesis
    by (simp add: demo_two_transcriptions)
qed

theorem C6_finalize_plain_witness:
  "transcriptions (snd demo_two) \<noteq> [] \<and>
   fst (finalize demo_env False demo_later demo_two) = Some (filepath (snd demo_two)) \<and>
   files (fst (snd (finalize demo_env False demo_later demo_two))) (filepath (snd demo_two)) =
     Some (content_of (fst demo_two) (filepath (snd demo_two)) @ summary_header
       @ ''Hi there.\<newline>Bye.'' @ summary_footer demo_later) \<and>
   transcriptions (snd demo_first) = [] \<and>
   finalize demo_env False demo_later demo_first = (None, demo_first)"
proof -
  have ne: "transcriptions (snd demo_two) \<noteq> []"
    using demo_two_transcriptions by auto
  have em: "transcriptions (snd demo_first) = []"
    by (simp add: demo_first_def init_eq)
  show ?thesis
    using ne em
      C6_finalize_plain [of "snd demo_two" demo_env demo_later "fst demo_two" False]
      C6_finalize_plain [of "snd demo_first" demo_env demo_later "fst demo_first" False]
    by (simp add: demo_two_transcriptions)
qed

lemma dir_demo:
  "dir_or_default demo_env None = ''sessions''"
  "dir_or_default down_env None = ''sessions''"
  "dir_or_default denied_env None = ''sessions''"
  "dir_or_default two_lines_env None = ''sessions''"
  by (simp_all add: dir_or_default_def demo_env_def down_env_def denied_env_def two_lines_env_def)

lemma llm_demo:
  "llm demo_env = stub_title" "llm down_env = stub_down"
  "llm denied_env = stub_title" "llm two_lines_env = stub_two_lines"
  by (simp_all add: demo_env_def down_env_def denied_env_def two_lines_env_def)

lemma rename_demo:
  "rename_fails demo_env a b = False" "rename_fails two_lines_env a b = False"
  "rename_fails denied_env a b = True"
  by (simp_all add: demo_env_def denied_env_def two_lines_env_def rename_works_def rename_denied_def)

theorem C5_title_failures_swallowed_witness:
  "invoke (llm down_env) (render title_template (take 200 (cleaned_or (Some ''Hi there.'') ''um hi there'')))
     = Inl (CompletionServiceError ''connection refused'') \<and>
   title (snd down_session) = ''Untitled Session'' \<and>
   filepath (snd down_session) = ''sessions/2024-01-01_10-00_session.md'' \<and>
   fst (finalize down_env True demo_later down_session) = Some ''sessions/2024-01-01_10-00_session.md'' \<and>
   invoke (llm denied_env) (render title_template (take 200 (cleaned_or (Some ''Hi there.'') ''um hi there'')))
     = Inr ''Greeting Note'' \<and>
   rename_fails denied_env
     (filepath (snd (SessionManager_init denied_env None demo_start empty_world)))
     (new_filepath_of ((snd (SessionManager_init denied_env None demo_start empty_world))
        \<lparr>title := take 50 (sanitize (strip ''Greeting Note''))\<rparr>)) \<and>
   title (snd denied_session) = ''Greeting Note'' \<and>
   filepath (snd denied_session) = ''sessions/2024-01-01_10-00_session.md'' \<and>
   fst (finalize denied_env True demo_later denied_session) = Some ''sessions/2024-01-01_10-00_session.md''"
proof -
  have p0: "filepath (snd (SessionManager_init e None demo_start empty_world)) =
      path_join (dir_or_default e None) ''2024-01-01_10-00_session.md''" for e
    by (simp add: init_eq strftime_file_demo)
  have a: "invoke (llm down_env) (render title_template (take 200 (cleaned_or (Some ''Hi there.'') ''um hi there'')))
     = Inl (CompletionServiceError ''connection refused'')"
    by (simp add: llm_demo invoke_stub_down)
  have b: "invoke (llm denied_env) (render title_template (take 200 (cleaned_or (Some ''Hi there.'') ''um hi there'')))
     = Inr ''Greeting Note''"
    by (simp add: llm_demo invoke_stub_title)
  have c: "rename_fails denied_env x y" for x y by (simp add: rename_demo)
  note t1 = C5_title_failures_swallowed [where e = down_env and dir = None and ?t0.0 = demo_start
      and w = empty_world and now = demo_start and ?text = "''um hi there''"
      and cl = "Some ''Hi there.''" and err = "CompletionServiceError ''connection refused''"
      and organize = True and ?now3.0 = demo_later, folded down_session_def]
  note t2 = C5_title_failures_swallowed [where e = denied_env and dir = None and ?t0.0 = demo_start
      and w = empty_world and now = demo_start and ?text = "''um hi there''"
      and cl = "Some ''Hi there.''" and out = "''Greeting Note''"
      and organize = True and ?now3.0 = demo_later, folded denied_session_def]
  have d1: "title (snd down_session) = ''Untitled Session'' \<and>
     filepath (snd down_session) = ''sessions/2024-01-01_10-00_session.md'' \<and>
     fst (finalize down_env True demo_later down_session) = Some ''sessions/2024-01-01_10-00_session.md''"
    using t1 a by (simp add: p0 dir_demo path_join_def)
  have d2: "title (snd denied_session) = ''Greeting Note'' \<and>
     filepath (snd denied_session) = ''sessions/2024-01-01_10-00_session.md'' \<and>
     fst (finalize denied_env True demo_later denied_session) = Some ''sessions/2024-01-01_10-00_session.md''"
    using t2 b c by (simp add: p0 dir_demo path_join_def sanitize_greeting)
  from a b c d1 d2 show ?thesis by simp
qed



text \<open>
  Claim C8, as stated: every character outside word characters, spaces and hyphens is
  stripped, and spaces become underscores in the file name. It fails for a title that
  comes back in two lines: the line feed is neither a word character, a space nor a
  hyphen, and it stays in the title and in the file name.
\<close>
theorem C8_whitespace_kept_counterexample:
  "title (snd two_lines_session) = ''Greeting\<newline>Note'' \<and>
   filepath (snd two_lines_session) = ''sessions/2024-01-01_10-00_Greeting\<newline>Note.md'' \<and>
   CHR 0x0A \<in> set (filepath (snd two_lines_session)) \<and>
   \<not> is_word (CHR 0x0A) \<and> CHR 0x0A \<noteq> CHR '' '' \<and> CHR 0x0A \<noteq> CHR ''-''"
proof -
  have ok: "invoke (llm two_lines_env)
      (render title_template (take 200 (cleaned_or (Some ''Hi there.'') ''um hi there''))) =
      Inr ''Greeting\<newline>Note''"
    by (simp add: llm_demo invoke_stub_two_lines)
  have "title (snd two_lines_session) = ''Greeting\<newline>Note'' \<and>
   filepath (snd two_lines_session) = ''sessions/2024-01-01_10-00_Greeting\<newline>Note.md''"
    unfolding two_lines_session_def first_add_ok[OF ok]
    by (simp add: rename_demo dir_demo strftime_file_demo sanitize_two_lines path_join_def
        replace_spaces_def)
  then show ?thesis by (simp add: is_word_def)
qed

theorem C8_filename_convention_witness:
  "filepath (snd demo_first) = ''sessions/2024-01-01_10-00_session.md'' \<and>
   invoke (llm demo_env) (render title_template (take 200 (cleaned_or (Some ''Hi there.'') ''um hi there'')))
     = Inr ''Greeting Note'' \<and>
   title (snd demo_session) = ''Greeting Note'' \<and>
   filepath (snd demo_session) = ''sessions/2024-01-01_10-00_Greeting_Note.md''"
proof -
  have ok: "invoke (llm demo_env)
      (render title_template (take 200 (cleaned_or (Some ''Hi there.'') ''um hi there''))) =
      Inr ''Greeting Note''"
    by (simp add: llm_demo invoke_stub_title)
  note t = C8_filename_convention [where e = demo_env and dir = None and ?t0.0 = demo_start
      and w = empty_world and now = demo_start and ?text = "''um hi there''"
      and cl = "Some ''Hi there.''" and out = "''Greeting Note''",
      folded demo_session_def demo_first_def]
  from t ok show ?thesis
    by (simp add: rename_demo dir_demo strftime_file_demo sanitize_greeting path_join_def
        replace_spaces_def)
qed

end
